theory Spec2Isabelle
  imports Complex_Main "HOL-Library.Word"
begin

section \<open>Python values and exceptions\<close>

text \<open>
  The exceptions that the modelled code can raise.  A function of the source that can
  raise returns \<open>py_exn + 'a\<close>, with \<open>Inl\<close> for the exception that leaves it.
  \<open>Invalid_binary_length n\<close> is the ValueError of protocol.py line 73, which carries
  the length of the payload in its message.
\<close>

datatype py_exn =
    Invalid_binary_length nat
  | TypeError
  | ValueError
  | OverflowError
  | AttributeError
  | ZeroDivisionError

text \<open>
  Python floats are modelled by their real values (rounding is not modelled), with the
  three kinds of non-finite values kept apart.
\<close>

datatype pyfloat = Fin real | PosInf | NegInf | NaN

text \<open>\<open>int(r)\<close> on a finite float truncates towards zero.\<close>

definition py_trunc :: "real \<Rightarrow> int" where
  "py_trunc r = (if 0 \<le> r then \<lfloor>r\<rfloor> else \<lceil>r\<rceil>)"

text \<open>\<open>a / b\<close> with a float numerator and an int denominator.\<close>

definition py_truediv :: "real \<Rightarrow> int \<Rightarrow> py_exn + real" where
  "py_truediv a b = (if b = 0 then Inl ZeroDivisionError else Inr (a / real_of_int b))"

section \<open>tui/grid\_adapter.py: TerminalGridAdapter\<close>

text \<open>
  The calls that leave the focus code, in the order they are made:
  \<open>Target_focus_pane i\<close> is \<open>self.target.focus_pane(i)\<close> of the focus manager,
  \<open>Terminal_focus i\<close> is \<open>self._terminals[i].focus()\<close> of the adapter,
  \<open>On_focus i\<close> is the adapter's \<open>_on_focus\<close> callback and
  \<open>On_focus_change old new\<close> the manager's \<open>on_focus_change\<close> callback.
\<close>

datatype call =
    Target_focus_pane int
  | Terminal_focus int
  | On_focus int
  | On_focus_change "int option" int

text \<open>
  A terminal widget is represented by its \<open>is_focused_pane\<close> flag, the only field
  the adapter writes.  \<open>on_focus\<close> tells whether a callback was given.
\<close>

record TerminalGridAdapter =
  terminals :: "bool list"
  rows :: int
  cols :: int
  on_focus :: bool
  inv_cols :: real
  inv_rows :: real

definition TerminalGridAdapter_init ::
  "bool list \<Rightarrow> int \<Rightarrow> int \<Rightarrow> bool \<Rightarrow> py_exn + TerminalGridAdapter" where
  "TerminalGridAdapter_init ts r c cb =
     (case (if c > 0 then py_truediv 1 c else Inr 0) of
        Inl e \<Rightarrow> Inl e
      | Inr ic \<Rightarrow>
          (case (if r > 0 then py_truediv 1 r else Inr 0) of
             Inl e \<Rightarrow> Inl e
           | Inr ir \<Rightarrow>
               Inr \<lparr>terminals = ts, rows = r, cols = c, on_focus = cb,
                    inv_cols = ic, inv_rows = ir\<rparr>))"

definition pane_count :: "TerminalGridAdapter \<Rightarrow> int" where
  "pane_count a = int (length (terminals a))"

text \<open>
  \<open>TerminalGridAdapter.focus_pane\<close>: returns the adapter with the flags rewritten and
  the calls it made.
\<close>

definition target_focus_pane ::
  "TerminalGridAdapter \<Rightarrow> int \<Rightarrow> TerminalGridAdapter \<times> call list" where
  "target_focus_pane a index =
     (if index < 0 \<or> index \<ge> int (length (terminals a)) then (a, [])
      else (a\<lparr>terminals := map (\<lambda>i. int i = index) [0..<length (terminals a)]\<rparr>,
            Terminal_focus index # (if on_focus a then [On_focus index] else [])))"

definition get_pane_at_position :: "TerminalGridAdapter \<Rightarrow> real \<Rightarrow> real \<Rightarrow> int option" where
  "get_pane_at_position a x_ratio y_ratio =
     (if \<not> (0 \<le> x_ratio \<and> x_ratio \<le> 1 \<and> 0 \<le> y_ratio \<and> y_ratio \<le> 1) then None
      else
        let col = py_trunc (x_ratio * real_of_int (cols a));
            row = py_trunc (y_ratio * real_of_int (rows a));
            col = (if col \<ge> cols a then cols a - 1 else col);
            row = (if row \<ge> rows a then rows a - 1 else row);
            index = row * cols a + col
        in if index \<ge> int (length (terminals a)) then None else Some index)"


text \<open>A 2 x 2 grid of four unfocused terminals, as the examples of the specification use.\<close>

definition grid_2x2 :: TerminalGridAdapter where
  "grid_2x2 = \<lparr>terminals = [False, False, False, False], rows = 2, cols = 2,
                on_focus = False, inv_cols = 1 / 2, inv_rows = 1 / 2\<rparr>"

section \<open>terminal/focus.py: FocusManager\<close>

text \<open>
  The focus manager with the grid adapter as its target.  \<open>on_focus_change\<close> tells
  whether a callback was given; \<open>calls\<close> records, in order, the calls the manager and
  its target have made.  The clock reading \<open>time.time() * 1000\<close> is the argument
  \<open>now\<close> of the operations that read it.
\<close>

record FocusManager =
  target :: TerminalGridAdapter
  screen_width :: int
  screen_height :: int
  dwell_time_ms :: int
  on_focus_change :: bool
  current_focus :: "int option"
  candidate_focus :: "int option"
  candidate_start_time :: "real option"
  inv_screen_width :: real
  inv_screen_height :: real
  calls :: "call list"

definition FocusManager_init ::
  "TerminalGridAdapter \<Rightarrow> int \<Rightarrow> int \<Rightarrow> int \<Rightarrow> bool \<Rightarrow> py_exn + FocusManager" where
  "FocusManager_init tgt w h dwell cb =
     (case (if w > 0 then py_truediv 1 w else Inr 0) of
        Inl e \<Rightarrow> Inl e
      | Inr iw \<Rightarrow>
          (case (if h > 0 then py_truediv 1 h else Inr 0) of
             Inl e \<Rightarrow> Inl e
           | Inr ih \<Rightarrow>
               Inr \<lparr>target = tgt, screen_width = w, screen_height = h,
                    dwell_time_ms = dwell, on_focus_change = cb,
                    current_focus = Some 0, candidate_focus = None,
                    candidate_start_time = None,
                    inv_screen_width = iw, inv_screen_height = ih, calls = []\<rparr>))"

text \<open>The default of the parameter \<open>dwell_time_ms\<close>.\<close>

definition default_dwell_time_ms :: int where
  "default_dwell_time_ms = 200"

definition pane_at :: "FocusManager \<Rightarrow> real \<Rightarrow> real \<Rightarrow> int option" where
  "pane_at fm x y =
     get_pane_at_position (target fm) (x * inv_screen_width fm) (y * inv_screen_height fm)"

definition update :: "FocusManager \<Rightarrow> real \<Rightarrow> real \<Rightarrow> real \<Rightarrow> bool \<times> FocusManager" where
  "update fm x y now =
     (case pane_at fm x y of
        None \<Rightarrow> (False, fm\<lparr>candidate_focus := None, candidate_start_time := None\<rparr>)
      | Some pane_idx \<Rightarrow>
          if Some pane_idx = current_focus fm
          then (False, fm\<lparr>candidate_focus := None, candidate_start_time := None\<rparr>)
          else if Some pane_idx \<noteq> candidate_focus fm
          then (False, fm\<lparr>candidate_focus := Some pane_idx, candidate_start_time := Some now\<rparr>)
          else
            (case candidate_start_time fm of
               None \<Rightarrow> (False, fm)
             | Some start \<Rightarrow>
                 if now - start \<ge> real_of_int (dwell_time_ms fm)
                 then
                   let old_focus = current_focus fm;
                       (tgt, made) = target_focus_pane (target fm) pane_idx
                   in (True,
                       fm\<lparr>current_focus := Some pane_idx, candidate_focus := None,
                          candidate_start_time := None, target := tgt,
                          calls := calls fm @ [Target_focus_pane pane_idx] @ made @
                            (if on_focus_change fm then [On_focus_change old_focus pane_idx]
                             else [])\<rparr>)
                 else (False, fm)))"

definition update_from_cell :: "FocusManager \<Rightarrow> int \<Rightarrow> int \<Rightarrow> real \<Rightarrow> bool \<times> FocusManager" where
  "update_from_cell fm row col now =
     (let pane_idx = row * cols (target fm) + col in
      if pane_idx < 0 \<or> pane_idx \<ge> pane_count (target fm)
      then (False, fm\<lparr>candidate_focus := None, candidate_start_time := None\<rparr>)
      else if Some pane_idx = current_focus fm
      then (False, fm\<lparr>candidate_focus := None, candidate_start_time := None\<rparr>)
      else if Some pane_idx \<noteq> candidate_focus fm
      then (False, fm\<lparr>candidate_focus := Some pane_idx, candidate_start_time := Some now\<rparr>)
      else
        (case candidate_start_time fm of
           None \<Rightarrow> (False, fm)
         | Some start \<Rightarrow>
             if now - start \<ge> real_of_int (dwell_time_ms fm)
             then
               let old_focus = current_focus fm;
                   (tgt, made) = target_focus_pane (target fm) pane_idx
               in (True,
                   fm\<lparr>current_focus := Some pane_idx, candidate_focus := None,
                      candidate_start_time := None, target := tgt,
                      calls := calls fm @ [Target_focus_pane pane_idx] @ made @
                        (if on_focus_change fm then [On_focus_change old_focus pane_idx]
                         else [])\<rparr>)
             else (False, fm)))"

definition focus_pane :: "FocusManager \<Rightarrow> int \<Rightarrow> bool \<times> FocusManager" where
  "focus_pane fm index =
     (if index < 0 \<or> index \<ge> pane_count (target fm) then (False, fm)
      else if Some index = current_focus fm then (False, fm)
      else
        let old_focus = current_focus fm;
            (tgt, made) = target_focus_pane (target fm) index
        in (True,
            fm\<lparr>current_focus := Some index, candidate_focus := None,
               candidate_start_time := None, target := tgt,
               calls := calls fm @ [Target_focus_pane index] @ made @
                 (if on_focus_change fm then [On_focus_change old_focus index] else [])\<rparr>))"

subsection \<open>Streams of gaze updates and of operations\<close>

text \<open>
  A gaze update is a position given to \<open>update\<close> or a cell given to
  \<open>update_from_cell\<close>; \<open>resolve\<close> is the pane index the operation computes from it
  before it looks at the focus state (absent when the position or the cell is out of
  range).
\<close>

datatype sample = Position real real | Cell int int

fun resolve :: "FocusManager \<Rightarrow> sample \<Rightarrow> int option" where
  "resolve fm (Position x y) = pane_at fm x y"
| "resolve fm (Cell row col) =
     (let pane_idx = row * cols (target fm) + col in
      if pane_idx < 0 \<or> pane_idx \<ge> pane_count (target fm) then None else Some pane_idx)"

fun deliver :: "FocusManager \<Rightarrow> sample \<Rightarrow> real \<Rightarrow> bool \<times> FocusManager" where
  "deliver fm (Position x y) now = update fm x y now"
| "deliver fm (Cell row col) now = update_from_cell fm row col now"

text \<open>
  \<open>feed\<close> delivers timed updates one after the other and returns the results of the
  calls with the final state.
\<close>

fun feed :: "FocusManager \<Rightarrow> (sample \<times> real) list \<Rightarrow> bool list \<times> FocusManager" where
  "feed fm [] = ([], fm)"
| "feed fm ((s, now) # rest) =
     (let (r, fm1) = deliver fm s now; (rs, fm2) = feed fm1 rest in (r # rs, fm2))"

datatype operation = Update sample real | Focus_pane int

fun exec :: "FocusManager \<Rightarrow> operation \<Rightarrow> FocusManager" where
  "exec fm (Update s now) = snd (deliver fm s now)"
| "exec fm (Focus_pane index) = snd (focus_pane fm index)"

fun run :: "FocusManager \<Rightarrow> operation list \<Rightarrow> FocusManager" where
  "run fm [] = fm"
| "run fm (op # ops) = run (exec fm op) ops"

subsection \<open>The transition that both update operations share\<close>

text \<open>
  \<open>update\<close> and \<open>update_from_cell\<close> repeat the same statements once the pane index
  is resolved.  \<open>dwell_step\<close> is that common transition on the resolved index,
  \<open>cleared\<close> the state with the candidate reset and \<open>committed\<close> the state after the
  commit block; that the two operations are \<open>dwell_step\<close> is proved below.
\<close>

definition cleared :: "FocusManager \<Rightarrow> FocusManager" where
  "cleared fm = fm\<lparr>candidate_focus := None, candidate_start_time := None\<rparr>"

definition committed :: "FocusManager \<Rightarrow> int \<Rightarrow> FocusManager" where
  "committed fm p =
     fm\<lparr>current_focus := Some p, candidate_focus := None, candidate_start_time := None,
        target := fst (target_focus_pane (target fm) p),
        calls := calls fm @ [Target_focus_pane p] @ snd (target_focus_pane (target fm) p) @
          (if on_focus_change fm then [On_focus_change (current_focus fm) p] else [])\<rparr>"

definition dwell_step :: "FocusManager \<Rightarrow> int option \<Rightarrow> real \<Rightarrow> bool \<times> FocusManager" where
  "dwell_step fm pane now =
     (case pane of
        None \<Rightarrow> (False, cleared fm)
      | Some p \<Rightarrow>
          if Some p = current_focus fm then (False, cleared fm)
          else if Some p \<noteq> candidate_focus fm
          then (False, fm\<lparr>candidate_focus := Some p, candidate_start_time := Some now\<rparr>)
          else
            (case candidate_start_time fm of
               None \<Rightarrow> (False, fm)
             | Some start \<Rightarrow>
                 if now - start \<ge> real_of_int (dwell_time_ms fm)
                 then (True, committed fm p) else (False, fm)))"

text \<open>
  The focus invariant of the amended claim on the committed focus: present, not
  negative, and either pane 0 or below the pane count.
\<close>

definition focus_ok :: "FocusManager \<Rightarrow> bool" where
  "focus_ok fm \<longleftrightarrow>
     (case current_focus fm of
        None \<Rightarrow> False
      | Some i \<Rightarrow> 0 \<le> i \<and> (i = 0 \<or> i < pane_count (target fm)))"

text \<open>
  The manager that \<open>FocusManager_init\<close> builds over the 2 x 2 grid on a 1920 x 1080
  screen, by dwell threshold and callback.
\<close>

definition manager_2x2 :: "int \<Rightarrow> bool \<Rightarrow> FocusManager" where
  "manager_2x2 dwell cb =
     \<lparr>target = grid_2x2, screen_width = 1920, screen_height = 1080,
      dwell_time_ms = dwell, on_focus_change = cb,
      current_focus = Some 0, candidate_focus = None, candidate_start_time = None,
      inv_screen_width = 1 / 1920, inv_screen_height = 1 / 1080, calls = []\<rparr>"

section \<open>gaze/protocol.py: the wire protocol codec\<close>

subsection \<open>Values and built-in conversions\<close>

text \<open>
  The values that \<open>json.loads\<close> produces, which are also the values a mapping given
  directly can hold.  A dict is an association list read with \<open>map_of\<close>; keys are
  strings, as the keys of a JSON object are.
\<close>

datatype pyval =
    PNone
  | PBool bool
  | PInt int
  | PFloat pyfloat
  | PStr string
  | PList "pyval list"
  | PDict "(string \<times> pyval) list"

text \<open>
  What the codec takes from the library and the clock: \<open>json.loads\<close> (absent for a
  JSONDecodeError), the parsers behind \<open>float(str)\<close> and \<open>int(str)\<close> (absent for
  a ValueError), and the reading of \<open>time.time()\<close>.
\<close>

record pyenv =
  json_loads :: "string \<Rightarrow> pyval option"
  float_of_str :: "string \<Rightarrow> pyfloat option"
  int_of_str :: "string \<Rightarrow> int option"
  time_time :: real

text \<open>
  \<open>float(v)\<close>.  An int at or beyond \<open>2^1024 - 2^970\<close> in magnitude rounds out of the
  range of a double and raises OverflowError.
\<close>

fun py_float :: "pyenv \<Rightarrow> pyval \<Rightarrow> py_exn + pyfloat" where
  "py_float env PNone = Inl TypeError"
| "py_float env (PBool b) = Inr (Fin (if b then 1 else 0))"
| "py_float env (PInt n) =
     (if \<bar>n\<bar> \<ge> 2 ^ 1024 - 2 ^ 970 then Inl OverflowError else Inr (Fin (real_of_int n)))"
| "py_float env (PFloat f) = Inr f"
| "py_float env (PStr s) =
     (case float_of_str env s of None \<Rightarrow> Inl ValueError | Some f \<Rightarrow> Inr f)"
| "py_float env (PList vs) = Inl TypeError"
| "py_float env (PDict d) = Inl TypeError"

text \<open>\<open>int(v)\<close>.\<close>

fun py_int :: "pyenv \<Rightarrow> pyval \<Rightarrow> py_exn + int" where
  "py_int env PNone = Inl TypeError"
| "py_int env (PBool b) = Inr (if b then 1 else 0)"
| "py_int env (PInt n) = Inr n"
| "py_int env (PFloat (Fin r)) = Inr (py_trunc r)"
| "py_int env (PFloat NaN) = Inl ValueError"
| "py_int env (PFloat PosInf) = Inl OverflowError"
| "py_int env (PFloat NegInf) = Inl OverflowError"
| "py_int env (PStr s) =
     (case int_of_str env s of None \<Rightarrow> Inl ValueError | Some n \<Rightarrow> Inr n)"
| "py_int env (PList vs) = Inl TypeError"
| "py_int env (PDict d) = Inl TypeError"

text \<open>The truth value of a value in a condition.\<close>

fun py_truthy :: "pyval \<Rightarrow> bool" where
  "py_truthy PNone = False"
| "py_truthy (PBool b) = b"
| "py_truthy (PInt n) = (n \<noteq> 0)"
| "py_truthy (PFloat f) = (f \<noteq> Fin 0)"
| "py_truthy (PStr s) = (s \<noteq> [])"
| "py_truthy (PList vs) = (vs \<noteq> [])"
| "py_truthy (PDict d) = (d \<noteq> [])"

text \<open>
  \<open>k in d\<close>, and \<open>d[k]\<close> where the code has checked that the key is there.
\<close>

definition dict_has :: "(string \<times> pyval) list \<Rightarrow> string \<Rightarrow> bool" where
  "dict_has d k = (map_of d k \<noteq> None)"

definition dict_item :: "(string \<times> pyval) list \<Rightarrow> string \<Rightarrow> pyval" where
  "dict_item d k = the (map_of d k)"

text \<open>\<open>d.get(k, default)\<close>.\<close>

definition dict_get :: "(string \<times> pyval) list \<Rightarrow> string \<Rightarrow> pyval \<Rightarrow> pyval" where
  "dict_get d k dflt = (case map_of d k of None \<Rightarrow> dflt | Some v \<Rightarrow> v)"

text \<open>Sequencing of calls that can raise: the first exception leaves.\<close>

definition py_bind :: "py_exn + 'a \<Rightarrow> ('a \<Rightarrow> py_exn + 'b) \<Rightarrow> py_exn + 'b" where
  "py_bind m f = (case m of Inl e \<Rightarrow> Inl e | Inr v \<Rightarrow> f v)"

subsection \<open>struct.unpack of little-endian 32-bit floats\<close>

text \<open>The unsigned number that bytes spell, least significant byte first.\<close>

fun le_nat :: "8 word list \<Rightarrow> nat" where
  "le_nat [] = 0"
| "le_nat (b # bs) = unat b + 256 * le_nat bs"

text \<open>
  The value of an IEEE 754 binary32 bit pattern: sign bit 31, exponent bits 30 to 23,
  fraction bits 22 to 0.  Every finite binary32 value is a double, so the conversion to
  a Python float is exact.
\<close>

definition f32_value :: "nat \<Rightarrow> pyfloat" where
  "f32_value n =
     (let negative = (n div 2 ^ 31 mod 2 = 1);
          e = n div 2 ^ 23 mod 256;
          m = n mod 2 ^ 23;
          magnitude =
            (if e = 0 then real m / 2 ^ 149
             else if e < 150 then real (2 ^ 23 + m) / 2 ^ (150 - e)
             else real (2 ^ 23 + m) * 2 ^ (e - 150))
      in if e = 255 then (if m \<noteq> 0 then NaN else if negative then NegInf else PosInf)
         else Fin (if negative then - magnitude else magnitude))"

text \<open>The k-th float of \<open>struct.unpack("<f...f", data)\<close>.\<close>

definition unpack_f :: "8 word list \<Rightarrow> nat \<Rightarrow> pyfloat" where
  "unpack_f data k = f32_value (le_nat (take 4 (drop (4 * k) data)))"

subsection \<open>GazePoint, ServerInfo, GazeMessage\<close>

text \<open>
  The fields \<open>x\<close> and \<open>y\<close> of GazePoint are named \<open>gaze_x\<close> and \<open>gaze_y\<close>, and
  the field \<open>type\<close> of GazeMessage \<open>msg_type\<close>.  The cell fields hold whatever the
  message carries, \<open>PNone\<close> when it carries nothing.
\<close>

record GazePoint =
  gaze_x :: pyfloat
  gaze_y :: pyfloat
  timestamp :: pyfloat
  confidence :: pyfloat
  seq :: int
  cell_row :: pyval
  cell_col :: pyval

definition from_dict :: "pyenv \<Rightarrow> (string \<times> pyval) list \<Rightarrow> py_exn + GazePoint" where
  "from_dict env data =
     py_bind
       (if dict_has data ''cell'' \<and> py_truthy (dict_item data ''cell'') then
          (case dict_item data ''cell'' of
             PDict cell \<Rightarrow> Inr (dict_get cell ''row'' PNone, dict_get cell ''col'' PNone)
           | _ \<Rightarrow> Inl AttributeError)
        else Inr (PNone, PNone))
       (\<lambda>(row, col).
     py_bind (py_float env (dict_get data ''x_px'' (dict_get data ''x'' (PInt 0)))) (\<lambda>x.
     py_bind (py_float env (dict_get data ''y_px'' (dict_get data ''y'' (PInt 0)))) (\<lambda>y.
     py_bind (py_float env (dict_get data ''timestamp'' (PInt 0))) (\<lambda>ts.
     py_bind (py_float env (dict_get data ''confidence'' (PFloat (Fin 1)))) (\<lambda>conf.
     py_bind (py_int env (dict_get data ''seq'' (PInt 0))) (\<lambda>sq.
       Inr \<lparr>gaze_x = x, gaze_y = y, timestamp = ts, confidence = conf, seq = sq,
            cell_row = row, cell_col = col\<rparr>))))))"

definition from_binary :: "pyenv \<Rightarrow> 8 word list \<Rightarrow> py_exn + GazePoint" where
  "from_binary env data =
     (if length data \<ge> 16 then
        Inr \<lparr>gaze_x = unpack_f (take 16 data) 0, gaze_y = unpack_f (take 16 data) 1,
             timestamp = unpack_f (take 16 data) 2, confidence = unpack_f (take 16 data) 3,
             seq = 0, cell_row = PNone, cell_col = PNone\<rparr>
      else if length data \<ge> 12 then
        Inr \<lparr>gaze_x = unpack_f (take 12 data) 0, gaze_y = unpack_f (take 12 data) 1,
             timestamp = unpack_f (take 12 data) 2, confidence = Fin 1,
             seq = 0, cell_row = PNone, cell_col = PNone\<rparr>
      else if length data \<ge> 8 then
        Inr \<lparr>gaze_x = unpack_f (take 8 data) 0, gaze_y = unpack_f (take 8 data) 1,
             timestamp = Fin (time_time env), confidence = Fin 1,
             seq = 0, cell_row = PNone, cell_col = PNone\<rparr>
      else Inl (Invalid_binary_length (length data)))"

record ServerInfo =
  name :: pyval
  version :: pyval

definition ServerInfo_from_dict :: "(string \<times> pyval) list \<Rightarrow> ServerInfo" where
  "ServerInfo_from_dict data =
     \<lparr>name = dict_get data ''name'' (PStr ''Unknown''),
      version = dict_get data ''version'' (PStr ''1.0'')\<rparr>"

datatype MessageType =
  GAZE_POINT | CALIBRATION_START | CALIBRATION_END | ERROR | STATUS | HELLO

text \<open>
  The content of the \<open>error\<close> field: the text of a caught exception, the text for a
  JSON decode error, the value of the message's own \<open>error\<close> key, or one of the two
  "unknown" texts with the value they print.
\<close>

datatype error_text =
    Str_of_exn py_exn
  | Invalid_JSON
  | Error_field pyval
  | Unknown_message_format "(string \<times> pyval) list"
  | Unknown_data_type pyval

record GazeMessage =
  msg_type :: MessageType
  gaze_point :: "GazePoint option"
  error :: "error_text option"
  status :: "pyval option"
  server_info :: "ServerInfo option"

text \<open>The input of \<open>parse_message\<close>: bytes, or a str, a dict or any other value.\<close>

datatype payload = Bytes "8 word list" | Value pyval

definition gaze_message :: "GazePoint \<Rightarrow> GazeMessage" where
  "gaze_message g =
     \<lparr>msg_type = GAZE_POINT, gaze_point = Some g, error = None, status = None,
      server_info = None\<rparr>"

definition error_message :: "error_text \<Rightarrow> GazeMessage" where
  "error_message t =
     \<lparr>msg_type = ERROR, gaze_point = None, error = Some t, status = None,
      server_info = None\<rparr>"

text \<open>The part of \<open>parse_message\<close> from \<open>isinstance(data, dict)\<close> on.\<close>

definition parse_value :: "pyenv \<Rightarrow> pyval \<Rightarrow> py_exn + GazeMessage" where
  "parse_value env v =
     (case v of
        PDict data \<Rightarrow>
          if dict_has data ''type'' \<and> dict_item data ''type'' = PStr ''hello'' then
            Inr \<lparr>msg_type = HELLO, gaze_point = None, error = None, status = None,
                 server_info = Some (ServerInfo_from_dict data)\<rparr>
          else if dict_has data ''error'' then
            Inr (error_message (Error_field (dict_item data ''error'')))
          else if dict_has data ''status'' \<and> \<not> dict_has data ''x_px'' \<and> \<not> dict_has data ''x''
          then
            Inr \<lparr>msg_type = STATUS, gaze_point = None, error = None,
                 status = Some (dict_item data ''status''), server_info = None\<rparr>
          else if dict_has data ''x_px'' \<or> dict_has data ''x'' then
            py_bind (from_dict env data) (\<lambda>g. Inr (gaze_message g))
          else Inr (error_message (Unknown_message_format data))
      | _ \<Rightarrow> Inr (error_message (Unknown_data_type v)))"

definition parse_message :: "pyenv \<Rightarrow> payload \<Rightarrow> py_exn + GazeMessage" where
  "parse_message env data =
     (case data of
        Bytes b \<Rightarrow>
          (case from_binary env b of
             Inr g \<Rightarrow> Inr (gaze_message g)
           | Inl e \<Rightarrow> Inr (error_message (Str_of_exn e)))
      | Value (PStr s) \<Rightarrow>
          (case json_loads env s of
             None \<Rightarrow> Inr (error_message Invalid_JSON)
           | Some v \<Rightarrow> parse_value env v)
      | Value v \<Rightarrow> parse_value env v)"

text \<open>
  The float at index k of a payload in the words of the specification: four bytes, least
  significant first, read as a 32-bit float.
\<close>

definition le_float_at :: "8 word list \<Rightarrow> nat \<Rightarrow> pyfloat" where
  "le_float_at data k =
     f32_value (unat (data ! (4 * k)) + 2 ^ 8 * unat (data ! (4 * k + 1))
                + 2 ^ 16 * unat (data ! (4 * k + 2)) + 2 ^ 24 * unat (data ! (4 * k + 3)))"

text \<open>An environment whose parsers reject every string, with the clock at t seconds.\<close>

definition plain_env :: "real \<Rightarrow> pyenv" where
  "plain_env t = \<lparr>json_loads = (\<lambda>s. None), float_of_str = (\<lambda>s. None),
                  int_of_str = (\<lambda>s. None), time_time = t\<rparr>"

section \<open>Grid addressing\<close>





section \<open>The dwell state machine\<close>

lemma update_dwell_step: "update fm x y now = dwell_step fm (pane_at fm x y) now"
  by (simp add: update_def dwell_step_def cleared_def committed_def Let_def
      split: option.splits prod.splits)

lemma update_from_cell_dwell_step:
  "update_from_cell fm row col now = dwell_step fm (resolve fm (Cell row col)) now"
  by (simp add: update_from_cell_def dwell_step_def cleared_def committed_def Let_def
      split: option.splits prod.splits)

lemma deliver_dwell_step: "deliver fm s now = dwell_step fm (resolve fm s) now"
proof (cases s)
  case (Position x y)
  then show ?thesis by (simp add: update_dwell_step)
next
  case (Cell row col)
  then show ?thesis by (simp add: update_from_cell_dwell_step del: resolve.simps)
qed

lemma target_focus_pane_shape:
  "rows (fst (target_focus_pane a i)) = rows a"
  "cols (fst (target_focus_pane a i)) = cols a"
  "length (terminals (fst (target_focus_pane a i))) = length (terminals a)"
  by (simp_all add: target_focus_pane_def)

lemma resolve_cong:
  assumes "rows (target fm') = rows (target fm)" "cols (target fm') = cols (target fm)"
    "length (terminals (target fm')) = length (terminals (target fm))"
    "inv_screen_width fm' = inv_screen_width fm" "inv_screen_height fm' = inv_screen_height fm"
  shows "resolve fm' s = resolve fm s"
  using assms
  by (cases s) (simp_all add: pane_at_def get_pane_at_position_def pane_count_def Let_def)


lemma feed_Cons:
  "feed fm ((s, now) # rest) =
     (fst (deliver fm s now) # fst (feed (snd (deliver fm s now)) rest),
      snd (feed (snd (deliver fm s now)) rest))"
  by (simp add: split_def Let_def)

lemma feed_append:
  "feed fm (xs @ ys) =
     (fst (feed fm xs) @ fst (feed (snd (feed fm xs)) ys), snd (feed (snd (feed fm xs)) ys))"
proof (induction xs arbitrary: fm)
  case Nil
  then show ?case by simp
next
  case (Cons a xs)
  obtain s t where a: "a = (s, t)" by (cases a)
  show ?case by (simp add: a feed_Cons Cons.IH del: feed.simps)
qed

lemma feed_waiting:
  assumes "candidate_focus fm = Some p" "candidate_start_time fm = Some t1"
    "current_focus fm \<noteq> Some p"
    "\<forall>(s, t) \<in> set xs. resolve fm s = Some p \<and> t - t1 < real_of_int (dwell_time_ms fm)"
  shows "feed fm xs = (replicate (length xs) False, fm)"
  using assms
proof (induction xs)
  case Nil
  then show ?case by simp
next
  case (Cons a xs)
  obtain s t where a: "a = (s, t)" by (cases a)
  from Cons.prems a have st: "deliver fm s t = (False, fm)"
    by (auto simp: deliver_dwell_step dwell_step_def)
  from Cons show ?case by (simp add: a feed_Cons st del: feed.simps)
qed

lemma cleared_idem: "cleared (cleared fm) = cleared fm"
  by (simp add: cleared_def)

lemma current_focus_cleared: "current_focus (cleared fm) = current_focus fm"
  by (simp add: cleared_def)

lemma resolve_cleared: "resolve (cleared fm) s = resolve fm s"
  by (rule resolve_cong) (simp_all add: cleared_def)

lemma feed_focused:
  assumes "current_focus fm = Some p" "\<forall>(s, t) \<in> set xs. resolve fm s = Some p"
  shows "feed fm xs = (replicate (length xs) False, if xs = [] then fm else cleared fm)"
  using assms
proof (induction xs arbitrary: fm)
  case Nil
  then show ?case by simp
next
  case (Cons a xs)
  obtain s t where a: "a = (s, t)" by (cases a)
  from Cons.prems a have st: "deliver fm s t = (False, cleared fm)"
    by (auto simp: deliver_dwell_step dwell_step_def)
  have "feed (cleared fm) xs = (replicate (length xs) False, if xs = [] then cleared fm else cleared (cleared fm))"
    using Cons.prems by (intro Cons.IH) (auto simp: current_focus_cleared resolve_cleared)
  then show ?case by (simp add: a feed_Cons st cleared_idem del: feed.simps)
qed


lemma committed_explicit:
  "committed (fm\<lparr>candidate_focus := c, candidate_start_time := st\<rparr>) p =
     fm\<lparr>current_focus := Some p, candidate_focus := None, candidate_start_time := None,
        target := fst (target_focus_pane (target fm) p),
        calls := calls fm @ [Target_focus_pane p] @ snd (target_focus_pane (target fm) p) @
          (if on_focus_change fm then [On_focus_change (current_focus fm) p] else [])\<rparr>"
  by (simp add: committed_def)

lemma resolve_candidate:
  "resolve (fm\<lparr>candidate_focus := c, candidate_start_time := st\<rparr>) s = resolve fm s"
  by (rule resolve_cong) simp_all

lemma resolve_committed: "resolve (committed fm p) s = resolve fm s"
  by (rule resolve_cong) (simp_all add: committed_def target_focus_pane_shape)

lemma cleared_committed: "cleared (committed fm p) = committed fm p"
  by (simp add: cleared_def committed_def)

lemma feed_after_start:
  assumes "current_focus fm \<noteq> Some p"
    and "\<forall>(s, t) \<in> set pre. resolve fm s = Some p \<and> t - t1 < real_of_int (dwell_time_ms fm)"
  shows "feed (fm\<lparr>candidate_focus := Some p, candidate_start_time := Some t1\<rparr>) pre =
     (replicate (length pre) False, fm\<lparr>candidate_focus := Some p, candidate_start_time := Some t1\<rparr>)"
  using assms by (intro feed_waiting) (auto simp: resolve_candidate)

lemma deliver_start:
  assumes "current_focus fm \<noteq> Some p" "candidate_focus fm \<noteq> Some p" "resolve fm s = Some p"
  shows "deliver fm s t = (False, fm\<lparr>candidate_focus := Some p, candidate_start_time := Some t\<rparr>)"
  using assms by (auto simp: deliver_dwell_step dwell_step_def)

lemma deliver_commit:
  assumes "current_focus fm \<noteq> Some p" "resolve fm s = Some p"
    "t - t1 \<ge> real_of_int (dwell_time_ms fm)"
  shows "deliver (fm\<lparr>candidate_focus := Some p, candidate_start_time := Some t1\<rparr>) s t =
     (True, committed (fm\<lparr>candidate_focus := Some p, candidate_start_time := Some t1\<rparr>) p)"
  using assms by (auto simp: deliver_dwell_step dwell_step_def resolve_candidate)

lemma deliver_wait:
  assumes "current_focus fm \<noteq> Some p" "resolve fm s = Some p"
    "t - t1 < real_of_int (dwell_time_ms fm)"
  shows "deliver (fm\<lparr>candidate_focus := Some p, candidate_start_time := Some t1\<rparr>) s t =
     (False, fm\<lparr>candidate_focus := Some p, candidate_start_time := Some t1\<rparr>)"
  using assms by (auto simp: deliver_dwell_step dwell_step_def resolve_candidate)

lemma feed_after_commit:
  assumes "\<forall>(s, t) \<in> set post. resolve fm s = Some p"
  shows "feed (committed fm p) post = (replicate (length post) False, committed fm p)"
proof -
  have "feed (committed fm p) post =
      (replicate (length post) False,
       if post = [] then committed fm p else cleared (committed fm p))"
  proof (rule feed_focused [where p = p])
    show "current_focus (committed fm p) = Some p" by (simp add: committed_def)
    show "\<forall>(s, t) \<in> set post. resolve (committed fm p) s = Some p"
      using assms by (auto simp: resolve_committed)
  qed
  then show ?thesis by (simp add: cleared_committed)
qed

text \<open>
  C1 (as amended).  Consecutive gaze updates, given to \<open>update\<close> or
  \<open>update_from_cell\<close>, that all resolve to one pane p other than the current focus and
  other than the candidate: the first one only starts the candidate, whatever the
  threshold; while the time elapsed since that first update stays below the threshold
  every call returns False and focus, target and calls are unchanged; the first later
  update whose elapsed time is at or above the threshold returns True and commits once:
  current focus p, candidate cleared, the target's \<open>focus_pane\<close> called with p, and
  the callback, when one is registered, called with the old focus and p.  Further updates
  resolving to p return False and change nothing.
\<close>

theorem dwell_commit:
  assumes "current_focus fm \<noteq> Some p" and "candidate_focus fm \<noteq> Some p"
    and "resolve fm s1 = Some p"
    and "\<forall>(s, t) \<in> set pre. resolve fm s = Some p \<and> t - t1 < real_of_int (dwell_time_ms fm)"
  shows "feed fm ((s1, t1) # pre) =
           (replicate (Suc (length pre)) False,
            fm\<lparr>candidate_focus := Some p, candidate_start_time := Some t1\<rparr>)
       \<and> (resolve fm sk = Some p \<and> tk - t1 \<ge> real_of_int (dwell_time_ms fm)
            \<and> (\<forall>(s, t) \<in> set post. resolve fm s = Some p)
          \<longrightarrow> feed fm ((s1, t1) # pre @ (sk, tk) # post) =
                (replicate (Suc (length pre)) False @ True # replicate (length post) False,
                 fm\<lparr>current_focus := Some p, candidate_focus := None,
                    candidate_start_time := None,
                    target := fst (target_focus_pane (target fm) p),
                    calls := calls fm @ [Target_focus_pane p]
                      @ snd (target_focus_pane (target fm) p)
                      @ (if on_focus_change fm then [On_focus_change (current_focus fm) p]
                         else [])\<rparr>))"
proof -
  let ?fm1 = "fm\<lparr>candidate_focus := Some p, candidate_start_time := Some t1\<rparr>"
  have first: "deliver fm s1 t1 = (False, ?fm1)"
    using assms(1-3) by (rule deliver_start)
  have waiting: "feed ?fm1 pre = (replicate (length pre) False, ?fm1)"
    using assms(1,4) by (rule feed_after_start)
  have part1: "feed fm ((s1, t1) # pre) = (replicate (Suc (length pre)) False, ?fm1)"
    by (simp add: feed_Cons first waiting del: feed.simps)
  have part2: "feed fm ((s1, t1) # pre @ (sk, tk) # post) =
      (replicate (Suc (length pre)) False @ True # replicate (length post) False,
       committed ?fm1 p)"
    if k: "resolve fm sk = Some p" "tk - t1 \<ge> real_of_int (dwell_time_ms fm)"
      and post: "\<forall>(s, t) \<in> set post. resolve fm s = Some p"
  proof -
    have c: "deliver ?fm1 sk tk = (True, committed ?fm1 p)"
      using assms(1) k by (rule deliver_commit)
    have "\<forall>(s, t) \<in> set post. resolve ?fm1 s = Some p"
      using post by (auto simp: resolve_candidate)
    then have after: "feed (committed ?fm1 p) post = (replicate (length post) False, committed ?fm1 p)"
      by (rule feed_after_commit)
    have "feed ?fm1 (pre @ (sk, tk) # post) =
        (replicate (length pre) False @ True # replicate (length post) False, committed ?fm1 p)"
      by (simp add: feed_append waiting feed_Cons c after del: feed.simps)
    then show ?thesis by (simp add: feed_Cons first del: feed.simps)
  qed
  from part1 part2 show ?thesis by (simp add: committed_explicit)
qed


lemma init_manager_2x2:
  "FocusManager_init grid_2x2 1920 1080 dwell cb = Inr (manager_2x2 dwell cb)"
  by (simp add: FocusManager_init_def manager_2x2_def py_truediv_def)

lemma init_grid_2x2:
  "TerminalGridAdapter_init [False, False, False, False] 2 2 False = Inr grid_2x2"
  by (simp add: TerminalGridAdapter_init_def grid_2x2_def py_truediv_def)

lemma resolve_2x2_cell: "resolve (manager_2x2 dwell cb) (Cell 0 1) = Some 1"
  by (simp add: manager_2x2_def grid_2x2_def pane_count_def)

lemma resolve_2x2_position: "resolve (manager_2x2 dwell cb) (Position 1500 100) = Some 1"
  by (simp add: manager_2x2_def grid_2x2_def pane_at_def get_pane_at_position_def
      py_trunc_def Let_def)

lemma focus_2x2: "target_focus_pane grid_2x2 1 =
    (grid_2x2\<lparr>terminals := [False, True, False, False]\<rparr>, [Terminal_focus 1])"
  by (simp add: target_focus_pane_def grid_2x2_def upt_rec_numeral)

theorem dwell_commit_witness:
  "current_focus (manager_2x2 default_dwell_time_ms True) \<noteq> Some 1
   \<and> feed (manager_2x2 default_dwell_time_ms True)
        [(Cell 0 1, 0), (Position 1500 100, 50), (Cell 0 1, 150), (Cell 0 1, 210),
         (Position 1500 100, 260)]
     = ([False, False, False, True, False],
        (manager_2x2 default_dwell_time_ms True)
          \<lparr>current_focus := Some 1,
           target := grid_2x2\<lparr>terminals := [False, True, False, False]\<rparr>,
           calls := [Target_focus_pane 1, Terminal_focus 1, On_focus_change (Some 0) 1]\<rparr>)"
proof -
  let ?fm = "manager_2x2 default_dwell_time_ms True"
  have h: "current_focus ?fm \<noteq> Some 1" "candidate_focus ?fm \<noteq> Some 1"
    by (simp_all add: manager_2x2_def)
  have d: "dwell_time_ms ?fm = 200"
    by (simp add: manager_2x2_def default_dwell_time_ms_def)
  have pre: "\<forall>(s, t) \<in> set [(Position 1500 100, 50), (Cell 0 1, 150)].
      resolve ?fm s = Some 1 \<and> t - 0 < real_of_int (dwell_time_ms ?fm)"
    by (simp add: resolve_2x2_cell resolve_2x2_position d del: resolve.simps)
  have post: "\<forall>(s, t) \<in> set [(Position 1500 100, 260::real)]. resolve ?fm s = Some 1"
    by (simp add: resolve_2x2_position del: resolve.simps)
  have k: "(210::real) - 0 \<ge> real_of_int (dwell_time_ms ?fm)"
    by (simp add: d)
  from dwell_commit [OF h resolve_2x2_cell pre, where sk = "Cell 0 1" and tk = 210
      and post = "[(Position 1500 100, 260)]"] resolve_2x2_cell post k
  have "feed ?fm ((Cell 0 1, 0) # [(Position 1500 100, 50), (Cell 0 1, 150)]
            @ (Cell 0 1, 210) # [(Position 1500 100, 260)]) =
        (replicate (Suc (length [(Position 1500 100, 50::real), (Cell 0 1, 150)])) False
           @ True # replicate (length [(Position 1500 100, 260::real)]) False,
         ?fm\<lparr>current_focus := Some 1, candidate_focus := None,
              candidate_start_time := None,
              target := fst (target_focus_pane (target ?fm) 1),
              calls := calls ?fm @ [Target_focus_pane 1]
                @ snd (target_focus_pane (target ?fm) 1)
                @ (if on_focus_change ?fm then [On_focus_change (current_focus ?fm) 1]
                   else [])\<rparr>)"
    by blast
  moreover have "target ?fm = grid_2x2" "calls ?fm = []" "on_focus_change ?fm"
    "current_focus ?fm = Some 0" "candidate_focus ?fm = None" "candidate_start_time ?fm = None"
    by (simp_all add: manager_2x2_def)
  ultimately show ?thesis
    using h by (simp add: focus_2x2 del: feed.simps)
qed

text \<open>
  With a threshold of 0 the first update for pane 1 has elapsed time 0, which is at or
  above the threshold, and yet does not commit; and without a registered callback a
  commit makes no notification.
\<close>

theorem dwell_commit_counterexample:
  "resolve (manager_2x2 0 True) (Cell 0 1) = Some 1
   \<and> current_focus (manager_2x2 0 True) = Some 0
   \<and> candidate_focus (manager_2x2 0 True) = None
   \<and> (1000::real) - 1000 \<ge> real_of_int (dwell_time_ms (manager_2x2 0 True))
   \<and> update_from_cell (manager_2x2 0 True) 0 1 1000 =
       (False, (manager_2x2 0 True)\<lparr>candidate_focus := Some 1,
                                      candidate_start_time := Some 1000\<rparr>)
   \<and> calls (snd (feed (manager_2x2 200 False) [(Cell 0 1, 0), (Cell 0 1, 210)]))
       = [Target_focus_pane 1, Terminal_focus 1]"
  by (simp add: manager_2x2_def grid_2x2_def pane_count_def update_from_cell_def
      target_focus_pane_def upt_rec_numeral Let_def)


lemma deliver_other:
  assumes "candidate_focus fm = Some p" "resolve fm sq = Some q" "q \<noteq> p"
  shows "\<exists>c st. deliver fm sq tq = (False, fm\<lparr>candidate_focus := c, candidate_start_time := st\<rparr>)
           \<and> c \<noteq> Some p"
proof (cases "Some q = current_focus fm")
  case True
  have "dwell_step fm (Some q) tq = (False, cleared fm)"
    using True [symmetric] by (simp add: dwell_step_def)
  with assms have "deliver fm sq tq = (False, fm\<lparr>candidate_focus := None, candidate_start_time := None\<rparr>)"
    by (simp add: deliver_dwell_step cleared_def del: resolve.simps)
  then show ?thesis by blast
next
  case False
  with assms have "deliver fm sq tq =
      (False, fm\<lparr>candidate_focus := Some q, candidate_start_time := Some tq\<rparr>)"
    by (simp add: deliver_dwell_step dwell_step_def)
  with assms(3) show ?thesis by blast
qed

text \<open>
  C2.  With a candidate for pane p in flight since any time t0, one update resolving to
  another pane q followed by an update resolving to p at time t1 leaves the candidate p
  with start time t1, whatever t0 was; the next update resolving to p at time t2 commits
  exactly when t2 - t1 reaches the threshold, so the time before the interruption never
  counts.
\<close>

theorem dwell_restart:
  assumes "candidate_focus fm = Some p" and "current_focus fm \<noteq> Some p"
    and "resolve fm sq = Some q" and "q \<noteq> p"
    and "resolve fm s1 = Some p" and "resolve fm s2 = Some p"
  shows "feed (fm\<lparr>candidate_start_time := Some t0\<rparr>) [(sq, tq), (s1, t1)] =
           ([False, False], fm\<lparr>candidate_focus := Some p, candidate_start_time := Some t1\<rparr>)
       \<and> (t2 - t1 < real_of_int (dwell_time_ms fm) \<longrightarrow>
            feed (fm\<lparr>candidate_start_time := Some t0\<rparr>) [(sq, tq), (s1, t1), (s2, t2)] =
              ([False, False, False],
               fm\<lparr>candidate_focus := Some p, candidate_start_time := Some t1\<rparr>))
       \<and> (t2 - t1 \<ge> real_of_int (dwell_time_ms fm) \<longrightarrow>
            feed (fm\<lparr>candidate_start_time := Some t0\<rparr>) [(sq, tq), (s1, t1), (s2, t2)] =
              ([False, False, True],
               fm\<lparr>current_focus := Some p, candidate_focus := None,
                  candidate_start_time := None,
                  target := fst (target_focus_pane (target fm) p),
                  calls := calls fm @ [Target_focus_pane p]
                    @ snd (target_focus_pane (target fm) p)
                    @ (if on_focus_change fm then [On_focus_change (current_focus fm) p]
                       else [])\<rparr>))"
proof -
  let ?fm0 = "fm\<lparr>candidate_start_time := Some t0\<rparr>"
  let ?fm2 = "fm\<lparr>candidate_focus := Some p, candidate_start_time := Some t1\<rparr>"
  have r0: "resolve ?fm0 s = resolve fm s" for s
    by (rule resolve_cong) simp_all
  from assms have "\<exists>c st. deliver ?fm0 sq tq =
      (False, ?fm0\<lparr>candidate_focus := c, candidate_start_time := st\<rparr>) \<and> c \<noteq> Some p"
    by (intro deliver_other [where q = q]) (simp_all add: r0 del: resolve.simps)
  then obtain c st where q: "deliver ?fm0 sq tq =
      (False, fm\<lparr>candidate_focus := c, candidate_start_time := st\<rparr>)" and c: "c \<noteq> Some p"
    by auto
  let ?fm1 = "fm\<lparr>candidate_focus := c, candidate_start_time := st\<rparr>"
  have "deliver ?fm1 s1 t1 =
      (False, ?fm1\<lparr>candidate_focus := Some p, candidate_start_time := Some t1\<rparr>)"
    using assms(2,5) c by (intro deliver_start) (simp_all add: resolve_candidate del: resolve.simps)
  then have p1: "deliver ?fm1 s1 t1 = (False, ?fm2)" by simp
  have two: "feed ?fm0 [(sq, tq), (s1, t1)] = ([False, False], ?fm2)"
    by (simp add: feed_Cons q p1 del: feed.simps(2))
  have wait: "feed ?fm0 [(sq, tq), (s1, t1), (s2, t2)] = ([False, False, False], ?fm2)"
    if "t2 - t1 < real_of_int (dwell_time_ms fm)"
  proof -
    have "deliver ?fm2 s2 t2 = (False, ?fm2)"
      using assms(2,6) that by (rule deliver_wait)
    then show ?thesis by (simp add: feed_Cons q p1 del: feed.simps(2))
  qed
  have commit: "feed ?fm0 [(sq, tq), (s1, t1), (s2, t2)] =
      ([False, False, True], committed ?fm2 p)"
    if "t2 - t1 \<ge> real_of_int (dwell_time_ms fm)"
  proof -
    have "deliver ?fm2 s2 t2 = (True, committed ?fm2 p)"
      using assms(2,6) that by (rule deliver_commit)
    then show ?thesis by (simp add: feed_Cons q p1 del: feed.simps(2))
  qed
  from two wait commit show ?thesis by (simp add: committed_explicit del: feed.simps)
qed

lemma resolve_2x2_cell2: "resolve (manager_2x2 dwell cb) (Cell 1 0) = Some 2"
  by (simp add: manager_2x2_def grid_2x2_def pane_count_def)

theorem dwell_restart_witness:
  "(250::real) - 0 \<ge> 200
   \<and> feed ((manager_2x2 200 True)\<lparr>candidate_focus := Some 1, candidate_start_time := Some 0\<rparr>)
       [(Cell 1 0, 150), (Cell 0 1, 160), (Position 1500 100, 250)]
     = ([False, False, False],
        (manager_2x2 200 True)\<lparr>candidate_focus := Some 1, candidate_start_time := Some 160\<rparr>)
   \<and> feed ((manager_2x2 200 True)\<lparr>candidate_focus := Some 1, candidate_start_time := Some 0\<rparr>)
       [(Cell 1 0, 150), (Cell 0 1, 160), (Position 1500 100, 360)]
     = ([False, False, True],
        (manager_2x2 200 True)
          \<lparr>current_focus := Some 1, candidate_focus := None,
           candidate_start_time := None,
           target := grid_2x2\<lparr>terminals := [False, True, False, False]\<rparr>,
           calls := [Target_focus_pane 1, Terminal_focus 1, On_focus_change (Some 0) 1]\<rparr>)"
proof -
  let ?fm = "(manager_2x2 200 True)\<lparr>candidate_focus := Some 1\<rparr>"
  have r: "resolve ?fm s = resolve (manager_2x2 200 True) s" for s
    by (rule resolve_cong) simp_all
  have h: "candidate_focus ?fm = Some 1" "current_focus ?fm \<noteq> Some 1"
    "resolve ?fm (Cell 1 0) = Some 2" "(2::int) \<noteq> 1"
    "resolve ?fm (Cell 0 1) = Some 1" "resolve ?fm (Position 1500 100) = Some 1"
    by (simp_all add: r resolve_2x2_cell resolve_2x2_cell2 resolve_2x2_position
        del: resolve.simps) (simp add: manager_2x2_def)
  have f: "target (manager_2x2 200 True) = grid_2x2" "calls (manager_2x2 200 True) = []"
    "on_focus_change (manager_2x2 200 True)"
    "current_focus (manager_2x2 200 True) = Some 0" "dwell_time_ms (manager_2x2 200 True) = 200"
    by (simp_all add: manager_2x2_def)
  from dwell_restart [OF h, where ?t0.0 = 0 and tq = 150 and ?t1.0 = 160 and ?t2.0 = 250]
    dwell_restart [OF h, where ?t0.0 = 0 and tq = 150 and ?t1.0 = 160 and ?t2.0 = 360]
  show ?thesis
    by (simp add: f focus_2x2 del: feed.simps)
qed



text \<open>
  C4.  In every state, a non-empty sequence of updates that all resolve to the pane that
  is the committed focus returns False each time, leaves focus and target unchanged,
  records no call (neither the target's \<open>focus_pane\<close> nor the notification), and
  clears the candidate.
\<close>

theorem refocus_idempotent:
  assumes "xs \<noteq> []"
    and "\<forall>(s, t) \<in> set xs. resolve fm s \<noteq> None \<and> resolve fm s = current_focus fm"
  shows "feed fm xs = (replicate (length xs) False,
                       fm\<lparr>candidate_focus := None, candidate_start_time := None\<rparr>)
       \<and> current_focus (snd (feed fm xs)) = current_focus fm
       \<and> calls (snd (feed fm xs)) = calls fm
       \<and> target (snd (feed fm xs)) = target fm
       \<and> candidate_focus (snd (feed fm xs)) = None
       \<and> candidate_start_time (snd (feed fm xs)) = None"
proof -
  from assms obtain s t where "(s, t) \<in> set xs" by (cases xs) auto
  with assms(2) obtain p where p: "current_focus fm = Some p" by fastforce
  with assms(2) have "\<forall>(s, t) \<in> set xs. resolve fm s = Some p" by auto
  with p have "feed fm xs = (replicate (length xs) False, if xs = [] then fm else cleared fm)"
    by (rule feed_focused)
  with assms(1) show ?thesis by (simp add: cleared_def)
qed

theorem refocus_idempotent_witness:
  "feed ((manager_2x2 200 True)\<lparr>candidate_focus := Some 1, candidate_start_time := Some 5\<rparr>)
     [(Cell 0 0, 10), (Position 100 100, 400), (Cell 0 0, 900)]
   = ([False, False, False], manager_2x2 200 True)
   \<and> calls (manager_2x2 200 True) = []"
proof -
  let ?fm = "(manager_2x2 200 True)\<lparr>candidate_focus := Some 1, candidate_start_time := Some 5\<rparr>"
  have r: "resolve ?fm (Cell 0 0) = Some 0" "resolve ?fm (Position 100 100) = Some 0"
    by (simp_all add: manager_2x2_def grid_2x2_def pane_count_def pane_at_def
        get_pane_at_position_def py_trunc_def Let_def)
  have c: "current_focus ?fm = Some 0" by (simp add: manager_2x2_def)
  have h: "\<forall>(s, t) \<in> set [(Cell 0 0, 10), (Position 100 100, 400), (Cell 0 0, 900::real)].
      resolve ?fm s \<noteq> None \<and> resolve ?fm s = current_focus ?fm"
    by (simp add: r c del: resolve.simps)
  have m: "?fm\<lparr>candidate_focus := None, candidate_start_time := None\<rparr> = manager_2x2 200 True"
    by (simp add: manager_2x2_def)
  from refocus_idempotent [OF _ h] show ?thesis
    unfolding m by (simp add: manager_2x2_def del: feed.simps)
qed


lemma clamp_nonneg:
  assumes "0 < n" "0 \<le> q"
  shows "0 \<le> (if py_trunc (q * real_of_int n) \<ge> n then n - 1 else py_trunc (q * real_of_int n))"
proof -
  from assms have "0 \<le> q * real_of_int n" by simp
  then have "0 \<le> py_trunc (q * real_of_int n)" by (simp add: py_trunc_def)
  with assms(1) show ?thesis by simp
qed

lemma get_pane_at_position_valid:
  assumes "0 < rows a" "0 < cols a" "get_pane_at_position a xr yr = Some i"
  shows "0 \<le> i \<and> i < pane_count a"
proof -
  from assms(3) have r: "0 \<le> xr" "0 \<le> yr"
    by (auto simp: get_pane_at_position_def split: if_splits)
  let ?col = "if py_trunc (xr * real_of_int (cols a)) \<ge> cols a then cols a - 1
              else py_trunc (xr * real_of_int (cols a))"
  let ?row = "if py_trunc (yr * real_of_int (rows a)) \<ge> rows a then rows a - 1
              else py_trunc (yr * real_of_int (rows a))"
  have c: "0 \<le> ?col" using assms(2) r(1) by (rule clamp_nonneg)
  have w: "0 \<le> ?row" using assms(1) r(2) by (rule clamp_nonneg)
  from assms(3) have i: "i = ?row * cols a + ?col" and lt: "i < int (length (terminals a))"
    by (auto simp: get_pane_at_position_def Let_def split: if_splits)
  from w assms(2) have "0 \<le> ?row * cols a" by simp
  with c i have "0 \<le> i" by linarith
  with lt show ?thesis by (simp add: pane_count_def)
qed

lemma resolve_valid:
  assumes "0 < rows (target fm)" "0 < cols (target fm)" "resolve fm s = Some i"
  shows "0 \<le> i \<and> i < pane_count (target fm)"
proof (cases s)
  case (Position x y)
  with assms show ?thesis by (simp add: pane_at_def get_pane_at_position_valid)
next
  case (Cell row col)
  with assms(3) show ?thesis by (auto simp: Let_def split: if_splits)
qed

lemma pane_count_target_focus_pane: "pane_count (fst (target_focus_pane a i)) = pane_count a"
  by (simp add: pane_count_def target_focus_pane_shape)

lemma target_dwell_step:
  "rows (target (snd (dwell_step fm pane now))) = rows (target fm)"
  "cols (target (snd (dwell_step fm pane now))) = cols (target fm)"
  "pane_count (target (snd (dwell_step fm pane now))) = pane_count (target fm)"
  by (simp_all add: dwell_step_def cleared_def committed_def target_focus_pane_shape
      pane_count_target_focus_pane split: option.splits)

lemma focus_ok_dwell_step:
  assumes "focus_ok fm" "\<And>i. pane = Some i \<Longrightarrow> 0 \<le> i \<and> i < pane_count (target fm)"
  shows "focus_ok (snd (dwell_step fm pane now))"
proof (cases pane)
  case None
  with assms(1) show ?thesis
    by (simp add: focus_ok_def dwell_step_def cleared_def split: option.splits)
next
  case (Some p)
  with assms(2) have p: "0 \<le> p" "p < pane_count (target fm)" by simp_all
  have c: "focus_ok (committed fm p)"
    using p by (simp add: focus_ok_def committed_def pane_count_target_focus_pane
        split: option.splits)
  have k: "focus_ok (fm\<lparr>candidate_focus := a, candidate_start_time := b\<rparr>)" for a b
    using assms(1) by (simp add: focus_ok_def split: option.splits)
  show ?thesis
    unfolding Some dwell_step_def cleared_def
    using assms(1) c k by (simp split: option.splits)
qed

lemma target_focus_pane_op:
  "rows (target (snd (focus_pane fm i))) = rows (target fm)"
  "cols (target (snd (focus_pane fm i))) = cols (target fm)"
  "pane_count (target (snd (focus_pane fm i))) = pane_count (target fm)"
  by (simp_all add: focus_pane_def split_def Let_def target_focus_pane_shape
      pane_count_target_focus_pane)

lemma focus_ok_focus_pane: "focus_ok fm \<Longrightarrow> focus_ok (snd (focus_pane fm i))"
  by (auto simp: focus_ok_def focus_pane_def split_def Let_def pane_count_target_focus_pane
      split: option.splits)

lemma exec_shape:
  "rows (target (exec fm op)) = rows (target fm)"
  "cols (target (exec fm op)) = cols (target fm)"
  "pane_count (target (exec fm op)) = pane_count (target fm)"
  by (cases op; simp add: deliver_dwell_step target_dwell_step target_focus_pane_op
      del: resolve.simps)+

lemma focus_ok_exec:
  assumes "0 < rows (target fm)" "0 < cols (target fm)" "focus_ok fm"
  shows "focus_ok (exec fm op)"
proof (cases op)
  case (Update s now)
  have "focus_ok (snd (dwell_step fm (resolve fm s) now))"
    using assms(3) resolve_valid [OF assms(1,2)] by (rule focus_ok_dwell_step)
  with Update show ?thesis by (simp add: deliver_dwell_step del: resolve.simps)
next
  case (Focus_pane i)
  with assms(3) show ?thesis by (simp add: focus_ok_focus_pane)
qed

lemma run_invariant:
  assumes "0 < rows (target fm)" "0 < cols (target fm)" "focus_ok fm"
  shows "focus_ok (run fm ops) \<and> pane_count (target (run fm ops)) = pane_count (target fm)"
  using assms
proof (induction ops arbitrary: fm)
  case Nil
  then show ?case by simp
next
  case (Cons op ops)
  have "focus_ok (run (exec fm op) ops)
      \<and> pane_count (target (run (exec fm op) ops)) = pane_count (target (exec fm op))"
    using Cons.prems by (intro Cons.IH) (simp_all add: exec_shape focus_ok_exec)
  then show ?case by (simp add: exec_shape)
qed

lemma FocusManager_init_total:
  "FocusManager_init tgt w h dwell cb =
     Inr \<lparr>target = tgt, screen_width = w, screen_height = h, dwell_time_ms = dwell,
          on_focus_change = cb, current_focus = Some 0, candidate_focus = None,
          candidate_start_time = None,
          inv_screen_width = (if w > 0 then 1 / real_of_int w else 0),
          inv_screen_height = (if h > 0 then 1 / real_of_int h else 0), calls = []\<rparr>"
  by (simp add: FocusManager_init_def py_truediv_def)

text \<open>
  C5 (as amended).  The constructor sets the committed focus to pane 0, never to absent.
  Over a grid with positive rows and columns, after any sequence of \<open>update\<close>,
  \<open>update_from_cell\<close> and \<open>focus_pane\<close> calls the committed focus is present and is
  either that initial 0 or a valid pane index in [0, pane\_count); the pane count does
  not change.
\<close>

theorem current_focus_invariant:
  assumes "FocusManager_init tgt w h dwell cb = Inr fm0"
    and "0 < rows tgt" and "0 < cols tgt"
  shows "current_focus fm0 = Some 0
       \<and> (\<exists>i. current_focus (run fm0 ops) = Some i \<and> 0 \<le> i
              \<and> (i = 0 \<or> i < pane_count (target (run fm0 ops))))
       \<and> pane_count (target (run fm0 ops)) = pane_count tgt"
proof -
  from assms(1) have fm0: "current_focus fm0 = Some 0" "target fm0 = tgt"
    by (auto simp: FocusManager_init_total)
  then have "focus_ok fm0" by (simp add: focus_ok_def)
  with assms(2,3) fm0(2)
  have "focus_ok (run fm0 ops) \<and> pane_count (target (run fm0 ops)) = pane_count (target fm0)"
    by (intro run_invariant) simp_all
  with fm0 show ?thesis by (auto simp: focus_ok_def split: option.splits)
qed

theorem current_focus_invariant_witness:
  "(current_focus (manager_2x2 200 False) = Some 0
    \<and> (\<exists>i. current_focus (run (manager_2x2 200 False)
              [Update (Cell 0 1) 0, Update (Position 1500 100) 300, Focus_pane 7,
               Focus_pane 3, Update (Cell 5 5) 400]) = Some i \<and> 0 \<le> i
          \<and> (i = 0 \<or> i < pane_count (target (run (manager_2x2 200 False)
              [Update (Cell 0 1) 0, Update (Position 1500 100) 300, Focus_pane 7,
               Focus_pane 3, Update (Cell 5 5) 400]))))
    \<and> pane_count (target (run (manager_2x2 200 False)
              [Update (Cell 0 1) 0, Update (Position 1500 100) 300, Focus_pane 7,
               Focus_pane 3, Update (Cell 5 5) 400])) = pane_count grid_2x2)
   \<and> current_focus (run (manager_2x2 200 False)
              [Update (Cell 0 1) 0, Update (Position 1500 100) 300, Focus_pane 7,
               Focus_pane 3, Update (Cell 5 5) 400]) = Some 3"
proof -
  have d: "0 < rows grid_2x2" "0 < cols grid_2x2"
    by (simp_all add: grid_2x2_def)
  have e: "current_focus (run (manager_2x2 200 False)
              [Update (Cell 0 1) 0, Update (Position 1500 100) 300, Focus_pane 7,
               Focus_pane 3, Update (Cell 5 5) 400]) = Some 3"
    by (simp add: manager_2x2_def grid_2x2_def pane_count_def update_from_cell_def
        update_def pane_at_def get_pane_at_position_def py_trunc_def focus_pane_def
        target_focus_pane_def upt_rec_numeral Let_def)
  from current_focus_invariant [OF init_manager_2x2 d] e
  show ?thesis by (rule conjI)
qed

text \<open>
  Right after construction, before any commit (no call recorded), the focus is pane 0 and
  not absent; over a grid without terminals that index is not below the pane count.
\<close>

theorem current_focus_counterexample:
  "FocusManager_init grid_2x2 1920 1080 200 False = Inr (manager_2x2 200 False)
   \<and> calls (manager_2x2 200 False) = []
   \<and> current_focus (manager_2x2 200 False) = Some 0
   \<and> current_focus (manager_2x2 200 False) \<noteq> None
   \<and> FocusManager_init (grid_2x2\<lparr>terminals := []\<rparr>) 1920 1080 200 False
       = Inr ((manager_2x2 200 False)\<lparr>target := grid_2x2\<lparr>terminals := []\<rparr>\<rparr>)
   \<and> current_focus ((manager_2x2 200 False)\<lparr>target := grid_2x2\<lparr>terminals := []\<rparr>\<rparr>) = Some 0
   \<and> pane_count (grid_2x2\<lparr>terminals := []\<rparr>) = 0"
  by (simp add: FocusManager_init_def py_truediv_def manager_2x2_def pane_count_def)





section \<open>The wire protocol codec\<close>

lemma take4_drop:
  assumes "i + 4 \<le> length xs"
  shows "take 4 (drop i xs) = [xs ! i, xs ! (i + 1), xs ! (i + 2), xs ! (i + 3)]"
proof -
  have s: "drop j xs = xs ! j # drop (Suc j) xs" if "j < length xs" for j
    using that by (simp add: Cons_nth_drop_Suc)
  have "drop i xs = xs ! i # xs ! Suc i # xs ! Suc (Suc i) # xs ! Suc (Suc (Suc i))
      # drop (Suc (Suc (Suc (Suc i)))) xs"
    using assms s [of i] s [of "Suc i"] s [of "Suc (Suc i)"] s [of "Suc (Suc (Suc i))"]
    by simp
  moreover have "take 4 (a # b # c # d # ys) = [a, b, c, d]" for a b c d :: 'a and ys
    by (simp add: numeral_eq_Suc)
  ultimately have "take 4 (drop i xs) =
      [xs ! i, xs ! Suc i, xs ! Suc (Suc i), xs ! Suc (Suc (Suc i))]"
    by simp
  then have t: "take 4 (drop i xs) =
      [xs ! i, xs ! Suc i, xs ! Suc (Suc i), xs ! Suc (Suc (Suc i))]" .
  have e: "i + 1 = Suc i" "i + 2 = Suc (Suc i)" "i + 3 = Suc (Suc (Suc i))"
    by arith+
  show ?thesis unfolding e by (rule t)
qed

lemma unpack_f_take:
  assumes "4 * k + 4 \<le> n" "n \<le> length data"
  shows "unpack_f (take n data) k = le_float_at data k"
proof -
  from assms have "4 * k + 4 \<le> length (take n data)" by simp
  then have "take 4 (drop (4 * k) (take n data)) =
      [take n data ! (4 * k), take n data ! (4 * k + 1), take n data ! (4 * k + 2),
       take n data ! (4 * k + 3)]"
    by (rule take4_drop)
  also have "\<dots> = [data ! (4 * k), data ! (4 * k + 1), data ! (4 * k + 2), data ! (4 * k + 3)]"
    using assms by simp
  finally show ?thesis by (simp add: unpack_f_def le_float_at_def add.assoc)
qed

text \<open>
  C6 (as amended).  A binary payload of at least 16 bytes decodes from its first 16 bytes
  as four little-endian 32-bit floats (x, y, timestamp, confidence); one of 12 to 15
  bytes decodes from its first 12 bytes as x, y and timestamp, with confidence 1.0; one of
  8 to 11 bytes decodes from its first 8 bytes as x and y, with the receipt time as
  timestamp and confidence 1.0; a payload shorter than 8 bytes gives an error message that
  carries the ValueError for its length.  Bytes beyond those read are ignored.
\<close>

theorem binary_decode:
  "(16 \<le> length data \<longrightarrow>
      parse_message env (Bytes data) =
        Inr (gaze_message
          \<lparr>gaze_x = le_float_at data 0, gaze_y = le_float_at data 1,
           timestamp = le_float_at data 2, confidence = le_float_at data 3,
           seq = 0, cell_row = PNone, cell_col = PNone\<rparr>))
   \<and> (12 \<le> length data \<and> length data < 16 \<longrightarrow>
      parse_message env (Bytes data) =
        Inr (gaze_message
          \<lparr>gaze_x = le_float_at data 0, gaze_y = le_float_at data 1,
           timestamp = le_float_at data 2, confidence = Fin 1,
           seq = 0, cell_row = PNone, cell_col = PNone\<rparr>))
   \<and> (8 \<le> length data \<and> length data < 12 \<longrightarrow>
      parse_message env (Bytes data) =
        Inr (gaze_message
          \<lparr>gaze_x = le_float_at data 0, gaze_y = le_float_at data 1,
           timestamp = Fin (time_time env), confidence = Fin 1,
           seq = 0, cell_row = PNone, cell_col = PNone\<rparr>))
   \<and> (length data < 8 \<longrightarrow>
      parse_message env (Bytes data) =
        Inr (error_message (Str_of_exn (Invalid_binary_length (length data)))))"
proof -
  have a: "parse_message env (Bytes data) =
        Inr (gaze_message
          \<lparr>gaze_x = le_float_at data 0, gaze_y = le_float_at data 1,
           timestamp = le_float_at data 2, confidence = le_float_at data 3,
           seq = 0, cell_row = PNone, cell_col = PNone\<rparr>)"
    if "16 \<le> length data"
    using that by (simp add: parse_message_def from_binary_def unpack_f_take)
  have b: "parse_message env (Bytes data) =
        Inr (gaze_message
          \<lparr>gaze_x = le_float_at data 0, gaze_y = le_float_at data 1,
           timestamp = le_float_at data 2, confidence = Fin 1,
           seq = 0, cell_row = PNone, cell_col = PNone\<rparr>)"
    if "12 \<le> length data" "length data < 16"
    using that by (simp add: parse_message_def from_binary_def unpack_f_take)
  have c: "parse_message env (Bytes data) =
        Inr (gaze_message
          \<lparr>gaze_x = le_float_at data 0, gaze_y = le_float_at data 1,
           timestamp = Fin (time_time env), confidence = Fin 1,
           seq = 0, cell_row = PNone, cell_col = PNone\<rparr>)"
    if "8 \<le> length data" "length data < 12"
    using that by (simp add: parse_message_def from_binary_def unpack_f_take)
  have d: "parse_message env (Bytes data) =
        Inr (error_message (Str_of_exn (Invalid_binary_length (length data))))"
    if "length data < 8"
    using that by (simp add: parse_message_def from_binary_def)
  from a b c d show ?thesis by blast
qed

lemma f32_examples:
  "f32_value (0 + 2 ^ 8 * 0 + 2 ^ 16 * 201 + 2 ^ 24 * 66) = Fin (201 / 2)"
  "f32_value (0 + 2 ^ 8 * 64 + 2 ^ 16 * 72 + 2 ^ 24 * 67) = Fin (801 / 4)"
  "f32_value (0 + 2 ^ 8 * 0 + 2 ^ 16 * 64 + 2 ^ 24 * 65) = Fin 12"
  "f32_value (102 + 2 ^ 8 * 102 + 2 ^ 16 * 102 + 2 ^ 24 * 63) = Fin (7549747 / 8388608)"
  by (simp_all add: f32_value_def Let_def)


theorem binary_decode_witness:
  "parse_message (plain_env 7)
     (Bytes [0, 0, 0xC9, 0x42, 0, 0x40, 0x48, 0x43, 0, 0, 0x40, 0x41, 0x66, 0x66, 0x66, 0x3F])
     = Inr (gaze_message
         \<lparr>gaze_x = Fin (201 / 2), gaze_y = Fin (801 / 4), timestamp = Fin 12,
          confidence = Fin (7549747 / 8388608), seq = 0, cell_row = PNone, cell_col = PNone\<rparr>)
   \<and> parse_message (plain_env 7)
     (Bytes [0, 0, 0xC9, 0x42, 0, 0x40, 0x48, 0x43, 0, 0, 0x40, 0x41])
     = Inr (gaze_message
         \<lparr>gaze_x = Fin (201 / 2), gaze_y = Fin (801 / 4), timestamp = Fin 12,
          confidence = Fin 1, seq = 0, cell_row = PNone, cell_col = PNone\<rparr>)
   \<and> parse_message (plain_env 7) (Bytes [0, 0, 0xC9, 0x42, 0, 0x40, 0x48, 0x43])
     = Inr (gaze_message
         \<lparr>gaze_x = Fin (201 / 2), gaze_y = Fin (801 / 4), timestamp = Fin 7,
          confidence = Fin 1, seq = 0, cell_row = PNone, cell_col = PNone\<rparr>)
   \<and> parse_message (plain_env 7) (Bytes [1, 2, 3])
     = Inr (error_message (Str_of_exn (Invalid_binary_length 3)))"
proof -
  have a: "parse_message (plain_env 7)
     (Bytes [0, 0, 0xC9, 0x42, 0, 0x40, 0x48, 0x43, 0, 0, 0x40, 0x41, 0x66, 0x66, 0x66, 0x3F])
     = Inr (gaze_message
         \<lparr>gaze_x = Fin (201 / 2), gaze_y = Fin (801 / 4), timestamp = Fin 12,
          confidence = Fin (7549747 / 8388608), seq = 0, cell_row = PNone, cell_col = PNone\<rparr>)"
    using binary_decode [of "[0, 0, 0xC9, 0x42, 0, 0x40, 0x48, 0x43, 0, 0, 0x40, 0x41,
      0x66, 0x66, 0x66, 0x3F]" "plain_env 7"]
    by (simp add: le_float_at_def f32_value_def Let_def)
  have b: "parse_message (plain_env 7)
     (Bytes [0, 0, 0xC9, 0x42, 0, 0x40, 0x48, 0x43, 0, 0, 0x40, 0x41])
     = Inr (gaze_message
         \<lparr>gaze_x = Fin (201 / 2), gaze_y = Fin (801 / 4), timestamp = Fin 12,
          confidence = Fin 1, seq = 0, cell_row = PNone, cell_col = PNone\<rparr>)"
    using binary_decode [of "[0, 0, 0xC9, 0x42, 0, 0x40, 0x48, 0x43, 0, 0, 0x40, 0x41]"
      "plain_env 7"]
    by (simp add: le_float_at_def f32_value_def Let_def)
  have c: "parse_message (plain_env 7) (Bytes [0, 0, 0xC9, 0x42, 0, 0x40, 0x48, 0x43])
     = Inr (gaze_message
         \<lparr>gaze_x = Fin (201 / 2), gaze_y = Fin (801 / 4), timestamp = Fin 7,
          confidence = Fin 1, seq = 0, cell_row = PNone, cell_col = PNone\<rparr>)"
    using binary_decode [of "[0, 0, 0xC9, 0x42, 0, 0x40, 0x48, 0x43]" "plain_env 7"]
    by (simp add: le_float_at_def f32_value_def Let_def plain_env_def)
  have "length [1, 2, 3 :: 8 word] = 3" by simp
  with binary_decode [of "[1, 2, 3]" "plain_env 7"]
  have d: "parse_message (plain_env 7) (Bytes [1, 2, 3])
     = Inr (error_message (Str_of_exn (Invalid_binary_length 3)))"
    by (simp del: list.size)
  from a b c d show ?thesis by simp
qed

text \<open>
  A payload of 9 bytes is not a decode error: it is decoded as a gaze point from its
  first 8 bytes.
\<close>

theorem binary_decode_counterexample:
  "length [0, 0, 0xC9, 0x42, 0, 0x40, 0x48, 0x43, 0xFF :: 8 word] = 9
   \<and> parse_message (plain_env 7) (Bytes [0, 0, 0xC9, 0x42, 0, 0x40, 0x48, 0x43, 0xFF])
     = Inr \<lparr>msg_type = GAZE_POINT,
            gaze_point = Some \<lparr>gaze_x = Fin (201 / 2), gaze_y = Fin (801 / 4),
              timestamp = Fin 7, confidence = Fin 1, seq = 0, cell_row = PNone,
              cell_col = PNone\<rparr>,
            error = None, status = None, server_info = None\<rparr>"
  by (simp add: parse_message_def from_binary_def gaze_message_def unpack_f_def
      f32_value_def Let_def plain_env_def)

text \<open>
  C7 (the code at the failing input).  For the mapping \<open>{"x": None}\<close>, given directly
  or as the result of \<open>json.loads\<close> on a text payload, \<open>parse_message\<close> does not
  return a message: the TypeError of \<open>float(None)\<close> in \<open>GazePoint.from_dict\<close>
  leaves it, since only the binary branch catches the decoder's exceptions.
\<close>

theorem parse_message_raises:
  "parse_message env (Value (PDict [(''x'', PNone)])) = Inl TypeError
   \<and> (json_loads env s = Some (PDict [(''x'', PNone)]) \<longrightarrow>
        parse_message env (Value (PStr s)) = Inl TypeError)"
  by (simp add: parse_message_def parse_value_def from_dict_def py_bind_def dict_has_def
      dict_item_def dict_get_def)

theorem parse_message_raises_witness:
  \<open>parse_message
     ((plain_env 0)\<lparr>json_loads := (\<lambda>s. if s = ''{"x": null}''
                                        then Some (PDict [(''x'', PNone)]) else None)\<rparr>)
     (Value (PStr ''{"x": null}'')) = Inl TypeError\<close>
  using parse_message_raises
    [of \<open>(plain_env 0)\<lparr>json_loads := (\<lambda>s. if s = ''{"x": null}''
                                        then Some (PDict [(''x'', PNone)]) else None)\<rparr>\<close>
      \<open>''{"x": null}''\<close>]
  by simp


lemma py_float_defaults:
  "py_float env (PInt 0) = Inr (Fin 0)" "py_float env (PFloat (Fin 1)) = Inr (Fin 1)"
  "py_int env (PInt 0) = Inr 0"
  by simp_all

lemma py_float_get:
  assumes "\<forall>v. map_of data k = Some v \<longrightarrow> (\<exists>f. py_float env v = Inr f)"
    and "\<exists>f. py_float env dflt = Inr f"
  shows "\<exists>f. py_float env (dict_get data k dflt) = Inr f"
  using assms by (cases "map_of data k") (simp_all add: dict_get_def)

lemma py_float_get2:
  assumes "\<forall>v. map_of data k = Some v \<longrightarrow> (\<exists>f. py_float env v = Inr f)"
    and "\<forall>v. map_of data k' = Some v \<longrightarrow> (\<exists>f. py_float env v = Inr f)"
  shows "\<exists>f. py_float env (dict_get data k (dict_get data k' (PInt 0))) = Inr f"
proof -
  have "\<exists>f. py_float env (dict_get data k' (PInt 0)) = Inr f"
    using assms(2) by (rule py_float_get) simp
  with assms(1) show ?thesis by (rule py_float_get)
qed

lemma py_int_get:
  assumes "\<forall>v. map_of data k = Some v \<longrightarrow> (\<exists>n. py_int env v = Inr n)"
  shows "\<exists>n. py_int env (dict_get data k (PInt 0)) = Inr n"
  using assms by (cases "map_of data k") (simp_all add: dict_get_def)

lemma cell_part:
  assumes "\<forall>v. map_of data ''cell'' = Some v \<longrightarrow> \<not> py_truthy v \<or> (\<exists>c. v = PDict c)"
  shows "\<exists>rc. (if dict_has data ''cell'' \<and> py_truthy (dict_item data ''cell'') then
          (case dict_item data ''cell'' of
             PDict cell \<Rightarrow> Inr (dict_get cell ''row'' PNone, dict_get cell ''col'' PNone)
           | _ \<Rightarrow> Inl AttributeError)
        else Inr (PNone, PNone)) = (Inr rc :: py_exn + pyval \<times> pyval)"
  using assms by (auto simp: dict_has_def dict_item_def)

lemma from_dict_succeeds:
  assumes "\<forall>k \<in> {''x_px'', ''x'', ''y_px'', ''y'', ''timestamp'', ''confidence''}.
      \<forall>v. map_of data k = Some v \<longrightarrow> (\<exists>f. py_float env v = Inr f)"
    and "\<forall>v. map_of data ''seq'' = Some v \<longrightarrow> (\<exists>n. py_int env v = Inr n)"
    and "\<forall>v. map_of data ''cell'' = Some v \<longrightarrow> \<not> py_truthy v \<or> (\<exists>c. v = PDict c)"
  shows "\<exists>g. from_dict env data = Inr g"
proof -
  obtain rc where rc: "(if dict_has data ''cell'' \<and> py_truthy (dict_item data ''cell'') then
          (case dict_item data ''cell'' of
             PDict cell \<Rightarrow> Inr (dict_get cell ''row'' PNone, dict_get cell ''col'' PNone)
           | _ \<Rightarrow> Inl AttributeError)
        else Inr (PNone, PNone)) = (Inr rc :: py_exn + pyval \<times> pyval)"
    using cell_part [OF assms(3)] by blast
  obtain x where x: "py_float env (dict_get data ''x_px'' (dict_get data ''x'' (PInt 0))) = Inr x"
    using py_float_get2 [of data "''x_px''" env "''x''"] assms(1) by auto
  obtain y where y: "py_float env (dict_get data ''y_px'' (dict_get data ''y'' (PInt 0))) = Inr y"
    using py_float_get2 [of data "''y_px''" env "''y''"] assms(1) by auto
  obtain ts where ts: "py_float env (dict_get data ''timestamp'' (PInt 0)) = Inr ts"
    using py_float_get [of data "''timestamp''" env "PInt 0"] assms(1) by auto
  obtain cf where cf: "py_float env (dict_get data ''confidence'' (PFloat (Fin 1))) = Inr cf"
    using py_float_get [of data "''confidence''" env "PFloat (Fin 1)"] assms(1) by auto
  obtain sq where sq: "py_int env (dict_get data ''seq'' (PInt 0)) = Inr sq"
    using py_int_get [OF assms(2)] by blast
  show ?thesis
    unfolding from_dict_def rc x y ts cf sq by (simp add: py_bind_def split_def)
qed

lemma py_bind_Inr: "py_bind m f = Inr r \<Longrightarrow> \<exists>v. m = Inr v \<and> f v = Inr r"
  by (cases m) (simp_all add: py_bind_def)

lemma from_dict_fields:
  assumes "from_dict env data = Inr g"
  shows "py_float env (dict_get data ''y_px'' (dict_get data ''y'' (PInt 0))) = Inr (gaze_y g)"
    and "py_float env (dict_get data ''timestamp'' (PInt 0)) = Inr (timestamp g)"
    and "py_float env (dict_get data ''confidence'' (PFloat (Fin 1))) = Inr (confidence g)"
    and "py_int env (dict_get data ''seq'' (PInt 0)) = Inr (seq g)"
  using assms unfolding from_dict_def
  by (auto dest!: py_bind_Inr simp: split_def)


text \<open>
  C10.  For a mapping with an \<open>x\<close> or \<open>x_px\<close> key: in every successful decode a
  missing y/y\_px gives y = 0.0, a missing timestamp gives 0.0, a missing confidence gives
  1.0 and a missing seq gives 0; decoding succeeds whenever the fields that are present
  convert (a present cell being falsy or a mapping), so no missing field makes it fail;
  \<open>parse_message\<close> decodes such a mapping with \<open>from_dict\<close> unless it is a hello or
  carries an error key; and \<open>{"x": 0.5}\<close> is the gaze sample at (0.5, 0.0) with
  timestamp 0.0, confidence 1.0 and seq 0.
\<close>

theorem from_dict_defaults:
  assumes "dict_has data ''x_px'' \<or> dict_has data ''x''"
  shows "(\<not> dict_has data ''y_px'' \<and> \<not> dict_has data ''y'' \<longrightarrow>
            (\<forall>g. from_dict env data = Inr g \<longrightarrow> gaze_y g = Fin 0))
       \<and> (\<not> dict_has data ''timestamp'' \<longrightarrow>
            (\<forall>g. from_dict env data = Inr g \<longrightarrow> timestamp g = Fin 0))
       \<and> (\<not> dict_has data ''confidence'' \<longrightarrow>
            (\<forall>g. from_dict env data = Inr g \<longrightarrow> confidence g = Fin 1))
       \<and> (\<not> dict_has data ''seq'' \<longrightarrow>
            (\<forall>g. from_dict env data = Inr g \<longrightarrow> seq g = 0))
       \<and> ((\<forall>k \<in> {''x_px'', ''x'', ''y_px'', ''y'', ''timestamp'', ''confidence''}.
              \<forall>v. map_of data k = Some v \<longrightarrow> (\<exists>f. py_float env v = Inr f))
            \<and> (\<forall>v. map_of data ''seq'' = Some v \<longrightarrow> (\<exists>n. py_int env v = Inr n))
            \<and> (\<forall>v. map_of data ''cell'' = Some v \<longrightarrow> \<not> py_truthy v \<or> (\<exists>c. v = PDict c))
          \<longrightarrow> (\<exists>g. from_dict env data = Inr g))
       \<and> (\<not> (dict_has data ''type'' \<and> dict_item data ''type'' = PStr ''hello'')
            \<and> \<not> dict_has data ''error''
          \<longrightarrow> parse_message env (Value (PDict data))
                = py_bind (from_dict env data) (\<lambda>g. Inr (gaze_message g)))
       \<and> parse_message env (Value (PDict [(''x'', PFloat (Fin (1 / 2)))]))
           = Inr (gaze_message
               \<lparr>gaze_x = Fin (1 / 2), gaze_y = Fin 0, timestamp = Fin 0, confidence = Fin 1,
                seq = 0, cell_row = PNone, cell_col = PNone\<rparr>)"
proof -
  have y: "gaze_y g = Fin 0"
    if "\<not> dict_has data ''y_px''" "\<not> dict_has data ''y''" "from_dict env data = Inr g" for g
    using from_dict_fields(1) [OF that(3)] that(1,2) by (simp add: dict_has_def dict_get_def)
  have ts: "timestamp g = Fin 0"
    if "\<not> dict_has data ''timestamp''" "from_dict env data = Inr g" for g
    using from_dict_fields(2) [OF that(2)] that(1) by (simp add: dict_has_def dict_get_def)
  have cf: "confidence g = Fin 1"
    if "\<not> dict_has data ''confidence''" "from_dict env data = Inr g" for g
    using from_dict_fields(3) [OF that(2)] that(1) by (simp add: dict_has_def dict_get_def)
  have sq: "seq g = 0"
    if "\<not> dict_has data ''seq''" "from_dict env data = Inr g" for g
    using from_dict_fields(4) [OF that(2)] that(1) by (simp add: dict_has_def dict_get_def)
  have pm: "parse_message env (Value (PDict data))
      = py_bind (from_dict env data) (\<lambda>g. Inr (gaze_message g))"
    if "\<not> (dict_has data ''type'' \<and> dict_item data ''type'' = PStr ''hello'')"
      "\<not> dict_has data ''error''"
    using that assms by (auto simp: parse_message_def parse_value_def)
  have ex: "parse_message env (Value (PDict [(''x'', PFloat (Fin (1 / 2)))]))
           = Inr (gaze_message
               \<lparr>gaze_x = Fin (1 / 2), gaze_y = Fin 0, timestamp = Fin 0, confidence = Fin 1,
                seq = 0, cell_row = PNone, cell_col = PNone\<rparr>)"
    by (simp add: parse_message_def parse_value_def from_dict_def py_bind_def dict_has_def
        dict_item_def dict_get_def)
  show ?thesis
    using y ts cf sq pm ex from_dict_succeeds [of data env] by blast
qed

theorem from_dict_defaults_witness:
  "dict_has [(''x'', PFloat (Fin (1 / 2)))] ''x''
   \<and> (\<exists>g. from_dict (plain_env 5) [(''x'', PFloat (Fin (1 / 2)))] = Inr g
          \<and> gaze_y g = Fin 0 \<and> timestamp g = Fin 0 \<and> confidence g = Fin 1 \<and> seq g = 0)
   \<and> parse_message (plain_env 5) (Value (PDict [(''x'', PFloat (Fin (1 / 2)))]))
       = py_bind (from_dict (plain_env 5) [(''x'', PFloat (Fin (1 / 2)))])
           (\<lambda>g. Inr (gaze_message g))"
proof -
  let ?d = "[(''x'', PFloat (Fin (1 / 2)))]"
  have h: "dict_has ?d ''x_px'' \<or> dict_has ?d ''x''"
    and k: "\<not> dict_has ?d ''y_px''" "\<not> dict_has ?d ''y''" "\<not> dict_has ?d ''timestamp''"
      "\<not> dict_has ?d ''confidence''" "\<not> dict_has ?d ''seq''" "\<not> dict_has ?d ''error''"
      "\<not> dict_has ?d ''type''"
    and x: "dict_has ?d ''x''"
    by (simp_all add: dict_has_def)
  have f: "\<forall>k \<in> {''x_px'', ''x'', ''y_px'', ''y'', ''timestamp'', ''confidence''}.
      \<forall>v. map_of ?d k = Some v \<longrightarrow> (\<exists>f. py_float (plain_env 5) v = Inr f)"
    by simp
  have s: "\<forall>v. map_of ?d ''seq'' = Some v \<longrightarrow> (\<exists>n. py_int (plain_env 5) v = Inr n)"
    by simp
  have c: "\<forall>v. map_of ?d ''cell'' = Some v \<longrightarrow> \<not> py_truthy v \<or> (\<exists>c. v = PDict c)"
    by simp
  note t = from_dict_defaults [OF h, of "plain_env 5"]
  from t f s c obtain g where g: "from_dict (plain_env 5) ?d = Inr g" by blast
  from t k g have "gaze_y g = Fin 0" "timestamp g = Fin 0" "confidence g = Fin 1" "seq g = 0"
    by blast+
  moreover from t k have "parse_message (plain_env 5) (Value (PDict ?d))
       = py_bind (from_dict (plain_env 5) ?d) (\<lambda>g. Inr (gaze_message g))"
    by blast
  ultimately show ?thesis using g x by blast
qed

end
